theory Spec2Isabelle
  imports Complex_Main
begin

section \<open>Time, durations and numbers\<close>

text \<open>
  A Go \<^verbatim>\<open>time.Time\<close> is an instant, here the number of nanoseconds since the Unix epoch;
  a \<^verbatim>\<open>time.Duration\<close> is a number of nanoseconds. The wall clock is an input of every
  operation that reads it. \<^verbatim>\<open>float64\<close> values (Go) and Lua numbers are modelled by exact
  rationals: rounding of floating-point arithmetic is not part of the model, and the
  stringified floats of the token bucket hash are represented by their values. An
  \<^verbatim>\<open>int64\<close> is an integer; the one place where the 64-bit range decides what happens,
  the overflow check of \<^verbatim>\<open>INCRBY\<close>, is written out. A method keeps its Go name, with the
  name of its limiter in front where two limiters share it.
\<close>

type_synonym time = int
type_synonym duration = int
type_synonym float64 = rat

definition Millisecond :: duration where
  "Millisecond = 1000000"

definition Second :: duration where
  "Second = 1000000000"

definition Minute :: duration where
  "Minute = 60 * Second"

definition Hour :: duration where
  "Hour = 60 * Minute"

text \<open>Seconds between Go's zero time (January 1, year 1, 00:00:00 UTC) and the Unix epoch.\<close>

definition unixToInternal :: int where
  "unixToInternal = 62135596800"

text \<open>The zero value \<^verbatim>\<open>time.Time{}\<close>.\<close>

definition zeroTime :: time where
  "zeroTime = - (unixToInternal * Second)"

text \<open>
  \<^verbatim>\<open>t.Truncate(d)\<close> rounds \<open>t\<close> down to a multiple of \<open>d\<close> counted from the zero time
  (not from the Unix epoch); it returns \<open>t\<close> unchanged when \<open>d \<le> 0\<close>.
\<close>

definition Truncate :: "time \<Rightarrow> duration \<Rightarrow> time" where
  "Truncate t d = (if d \<le> 0 then t else t - (t + unixToInternal * Second) mod d)"

text \<open>\<^verbatim>\<open>t.Unix()\<close>: whole seconds since the Unix epoch, rounded down.\<close>

definition Unix :: "time \<Rightarrow> int" where
  "Unix t = t div Second"

text \<open>\<^verbatim>\<open>t.UnixNano()\<close>.\<close>

definition UnixNano :: "time \<Rightarrow> int" where
  "UnixNano t = t"

text \<open>\<^verbatim>\<open>time.Unix(sec, nsec)\<close>.\<close>

definition time_Unix :: "int \<Rightarrow> int \<Rightarrow> time" where
  "time_Unix sec nsec = sec * Second + nsec"

definition Add :: "time \<Rightarrow> duration \<Rightarrow> time" where
  "Add t d = t + d"

definition Sub :: "time \<Rightarrow> time \<Rightarrow> duration" where
  "Sub t u = t - u"

text \<open>\<^verbatim>\<open>time.Until(t)\<close> is \<^verbatim>\<open>t.Sub(time.Now())\<close>; the clock reading is the first argument.\<close>

definition Until :: "time \<Rightarrow> time \<Rightarrow> duration" where
  "Until clock t = Sub t clock"

text \<open>\<^verbatim>\<open>d.Seconds()\<close>: the duration as a floating-point number of seconds.\<close>

definition Seconds :: "duration \<Rightarrow> float64" where
  "Seconds d = of_int d / of_int Second"

text \<open>The conversion \<^verbatim>\<open>int64(x)\<close> of a float: the fraction is discarded (towards zero).\<close>

definition int64_of_float :: "float64 \<Rightarrow> int" where
  "int64_of_float x = (if 0 \<le> x then \<lfloor>x\<rfloor> else \<lceil>x\<rceil>)"

text \<open>The verb \<^verbatim>\<open>%d\<close> of \<^verbatim>\<open>fmt.Sprintf\<close>: decimal digits, with a minus sign when negative.\<close>

definition digitChar :: "int \<Rightarrow> char" where
  "digitChar d =
     (if d = 1 then CHR ''1'' else if d = 2 then CHR ''2'' else if d = 3 then CHR ''3''
      else if d = 4 then CHR ''4'' else if d = 5 then CHR ''5'' else if d = 6 then CHR ''6''
      else if d = 7 then CHR ''7'' else if d = 8 then CHR ''8'' else if d = 9 then CHR ''9''
      else CHR ''0'')"

function showDigits :: "int \<Rightarrow> string" where
  "showDigits n =
     (if n < 10 then [digitChar n] else showDigits (n div 10) @ [digitChar (n mod 10)])"
  by pat_completeness auto
termination
  by (relation "measure nat") auto

declare showDigits.simps [simp del]

definition showInt :: "int \<Rightarrow> string" where
  "showInt i = (if i < 0 then CHR ''-'' # showDigits (- i) else showDigits i)"

section \<open>Errors (errors.go)\<close>

text \<open>
  The five sentinel errors of the package, the two shapes of \<^verbatim>\<open>fmt.Errorf\<close> the package
  uses (a plain message, and a message that wraps a cause with \<^verbatim>\<open>%w\<close>), and the errors
  that come out of the store client.
\<close>

datatype error =
    ErrInvalidConfig
  | ErrStorageUnavailable
  | ErrInvalidKey
  | ErrInvalidN
  | ErrClosed
  | Errorf string
  | Wrapf string error
  | RedisError string

text \<open>\<^verbatim>\<open>errors.Is(err, target)\<close>: \<open>err\<close> or an error it wraps is \<open>target\<close>.\<close>

fun errors_Is :: "error \<Rightarrow> error \<Rightarrow> bool" where
  "errors_Is (Wrapf m e) target = (Wrapf m e = target \<or> errors_Is e target)"
| "errors_Is e target = (e = target)"

section \<open>Configuration and results (interface.go, result.go)\<close>

definition TokenBucket :: string where
  "TokenBucket = ''token_bucket''"

definition SlidingWindow :: string where
  "SlidingWindow = ''sliding_window''"

definition FixedWindow :: string where
  "FixedWindow = ''fixed_window''"

record Config =
  Algorithm :: string
  Limit :: int
  Window :: duration
  Prefix :: string
  FailOpen :: bool

record Result =
  Allowed :: bool
  Limit :: int
  Remaining :: int
  RetryAfter :: duration
  ResetAt :: time

definition NewAllowedResult :: "int \<Rightarrow> int \<Rightarrow> time \<Rightarrow> Result" where
  "NewAllowedResult limit remaining resetAt =
     \<lparr>Allowed = True, Limit = limit, Remaining = remaining, RetryAfter = 0, ResetAt = resetAt\<rparr>"

definition NewDeniedResult :: "int \<Rightarrow> duration \<Rightarrow> time \<Rightarrow> Result" where
  "NewDeniedResult limit retryAfter resetAt =
     \<lparr>Allowed = False, Limit = limit, Remaining = 0, RetryAfter = retryAfter, ResetAt = resetAt\<rparr>"


definition NewFailClosedResult :: Result where
  "NewFailClosedResult =
     \<lparr>Allowed = False, Limit = 0, Remaining = 0, RetryAfter = 0, ResetAt = zeroTime\<rparr>"

definition DefaultPrefix :: string where
  "DefaultPrefix = ''ratelimit''"

text \<open>
  A \<^verbatim>\<open>*Config\<close> may be nil: the receiver is a \<open>Config option\<close>. The messages of
  \<open>Validate\<close> keep their fixed text; the \<^verbatim>\<open>%v\<close> rendering of a duration is left out.
\<close>

definition Validate :: "Config option \<Rightarrow> error option" where
  "Validate c =
     (case c of
        None \<Rightarrow> Some (Errorf ''config cannot be nil'')
      | Some c \<Rightarrow>
          if Algorithm c \<noteq> TokenBucket \<and> Algorithm c \<noteq> SlidingWindow \<and> Algorithm c \<noteq> FixedWindow
             \<and> Algorithm c = []
          then Some (Errorf ''algorithm is required'')
          else if Algorithm c \<noteq> TokenBucket \<and> Algorithm c \<noteq> SlidingWindow
             \<and> Algorithm c \<noteq> FixedWindow
          then Some (Errorf (''unknown algorithm: '' @ Algorithm c @
                 '' (must be one of: token_bucket, sliding_window, fixed_window)''))
          else if Config.Limit c \<le> 0
          then Some (Errorf (''limit must be greater than 0, got: '' @ showInt (Config.Limit c)))
          else if Window c \<le> 0
          then Some (Errorf ''window must be greater than 0'')
          else if Window c < Millisecond
          then Some (Errorf ''window too small (minimum: 1ms)'')
          else if Window c > 365 * 24 * Hour
          then Some (Errorf ''window too large (maximum: 365 days)'')
          else None)"

definition WithDefaults :: "Config option \<Rightarrow> Config option" where
  "WithDefaults c =
     (case c of
        None \<Rightarrow> None
      | Some c \<Rightarrow>
          (let result = c;
               result = (if Prefix result = [] then result\<lparr>Prefix := DefaultPrefix\<rparr> else result)
           in Some result))"

definition KeyPrefix :: "Config option \<Rightarrow> string" where
  "KeyPrefix c = (case c of None \<Rightarrow> DefaultPrefix | Some c \<Rightarrow> Prefix c)"

definition FormatKey :: "Config option \<Rightarrow> string \<Rightarrow> string" where
  "FormatKey c key =
     (let prefix = KeyPrefix c
      in if prefix = [] then key else prefix @ '':'' @ key)"

section \<open>The store\<close>

text \<open>
  The Redis keyspace as the scripts see it: a key holds an integer string or a hash of
  numeric fields (a list of field and value), together with its time to live in seconds
  (\<open>None\<close>: no expiry). The commands follow the Redis documentation: a command on a key
  of the other type fails,
  \<^verbatim>\<open>INCRBY\<close> fails rather than leave the signed 64-bit range, \<^verbatim>\<open>EXPIRE\<close> on a missing
  key does nothing, and \<^verbatim>\<open>EXPIRE\<close> with a timeout that is not positive deletes the key.
  The removal of a key whose time to live has run out happens in the store between calls
  and is not a step of the model.
\<close>

datatype redis_value = RInt int | RHash "(string \<times> float64) list"

type_synonym redis = "string \<Rightarrow> (redis_value \<times> int option) option"

definition INCRBY :: "redis \<Rightarrow> string \<Rightarrow> int \<Rightarrow> (string + int) \<times> redis" where
  "INCRBY db k n =
     (case db k of
        None \<Rightarrow> (Inr n, db(k \<mapsto> (RInt n, None)))
      | Some (RInt v, ttl) \<Rightarrow>
          if v + n < - (2 ^ 63) \<or> 2 ^ 63 - 1 < v + n
          then (Inl ''ERR increment or decrement would overflow'', db)
          else (Inr (v + n), db(k \<mapsto> (RInt (v + n), ttl)))
      | Some (RHash h, ttl) \<Rightarrow>
          (Inl ''WRONGTYPE Operation against a key holding the wrong kind of value'', db))"

definition GET :: "redis \<Rightarrow> string \<Rightarrow> string + int option" where
  "GET db k =
     (case db k of
        None \<Rightarrow> Inr None
      | Some (RInt v, ttl) \<Rightarrow> Inr (Some v)
      | Some (RHash h, ttl) \<Rightarrow>
          Inl ''WRONGTYPE Operation against a key holding the wrong kind of value'')"

definition EXPIRE :: "redis \<Rightarrow> string \<Rightarrow> int \<Rightarrow> redis" where
  "EXPIRE db k seconds =
     (case db k of
        None \<Rightarrow> db
      | Some (v, ttl) \<Rightarrow> if seconds \<le> 0 then db(k := None) else db(k \<mapsto> (v, Some seconds)))"

text \<open>Setting one field of a hash: the field is overwritten in place, or added at the end.\<close>

fun hset :: "(string \<times> float64) list \<Rightarrow> string \<Rightarrow> float64 \<Rightarrow> (string \<times> float64) list" where
  "hset [] f v = [(f, v)]"
| "hset ((g, w) # h) f v = (if g = f then (f, v) # h else (g, w) # hset h f v)"

definition HMGET :: "redis \<Rightarrow> string \<Rightarrow> string \<Rightarrow> string
    \<Rightarrow> string + (float64 option \<times> float64 option)" where
  "HMGET db k f1 f2 =
     (case db k of
        None \<Rightarrow> Inr (None, None)
      | Some (RHash h, ttl) \<Rightarrow> Inr (map_of h f1, map_of h f2)
      | Some (RInt v, ttl) \<Rightarrow>
          Inl ''WRONGTYPE Operation against a key holding the wrong kind of value'')"

definition HMSET :: "redis \<Rightarrow> string \<Rightarrow> string \<Rightarrow> float64 \<Rightarrow> string \<Rightarrow> float64
    \<Rightarrow> (string + unit) \<times> redis" where
  "HMSET db k f1 v1 f2 v2 =
     (case db k of
        None \<Rightarrow> (Inr (), db(k \<mapsto> (RHash (hset (hset [] f1 v1) f2 v2), None)))
      | Some (RHash h, ttl) \<Rightarrow> (Inr (), db(k \<mapsto> (RHash (hset (hset h f1 v1) f2 v2), ttl)))
      | Some (RInt v, ttl) \<Rightarrow>
          (Inl ''WRONGTYPE Operation against a key holding the wrong kind of value'', db))"

fun DEL :: "redis \<Rightarrow> string list \<Rightarrow> redis" where
  "DEL db [] = db"
| "DEL db (k # ks) = DEL (db(k := None)) ks"

subsection \<open>The three admission scripts\<close>

text \<open>
  Each Lua script is a function from the keyspace to a reply and the new keyspace. An
  error raised by \<^verbatim>\<open>redis.call\<close> ends the script with that error.
\<close>

definition fixedWindowScript :: "redis \<Rightarrow> string \<Rightarrow> int \<Rightarrow> int \<Rightarrow> (string + int) \<times> redis" where
  "fixedWindowScript db key1 argv1 argv2 =
     (case INCRBY db key1 argv1 of
        (Inl e, db1) \<Rightarrow> (Inl e, db1)
      | (Inr current, db1) \<Rightarrow>
          (Inr current, if current = argv1 then EXPIRE db1 key1 argv2 else db1))"

definition slidingWindowScript :: "redis \<Rightarrow> string \<Rightarrow> string \<Rightarrow> int \<Rightarrow> int \<Rightarrow> int
    \<Rightarrow> (string + int \<times> int) \<times> redis" where
  "slidingWindowScript db key1 key2 argv1 argv2 argv3 =
     (case GET db key2 of
        Inl e \<Rightarrow> (Inl e, db)
      | Inr g \<Rightarrow>
          (let prev = (case g of Some v \<Rightarrow> v | None \<Rightarrow> 0)
           in case INCRBY db key1 argv1 of
                (Inl e, db1) \<Rightarrow> (Inl e, db1)
              | (Inr cur, db1) \<Rightarrow>
                  (let db2 = (if cur = argv1 then EXPIRE db1 key1 argv2 else db1);
                       db3 = EXPIRE db2 key2 argv3
                   in (Inr (prev, cur), db3))))"

definition tokenBucketScript :: "redis \<Rightarrow> string \<Rightarrow> float64 \<Rightarrow> float64 \<Rightarrow> float64 \<Rightarrow> float64
    \<Rightarrow> int \<Rightarrow> (string + int \<times> int) \<times> redis" where
  "tokenBucketScript db key1 capacity requested refill_rate now ttl =
     (case HMGET db key1 ''tokens'' ''last_refill'' of
        Inl e \<Rightarrow> (Inl e, db)
      | Inr (state1, state2) \<Rightarrow>
          (let tokens = (case state1 of Some t \<Rightarrow> t | None \<Rightarrow> capacity);
               last_refill = (case state2 of Some l \<Rightarrow> l | None \<Rightarrow> now);
               elapsed = now - last_refill;
               tokens_to_add = elapsed * refill_rate;
               tokens = min capacity (tokens + tokens_to_add);
               allowed = (if tokens \<ge> requested then 1 else 0);
               tokens = (if tokens \<ge> requested then tokens - requested else tokens)
           in case HMSET db key1 ''tokens'' tokens ''last_refill'' now of
                (Inl e, db1) \<Rightarrow> (Inl e, db1)
              | (Inr u, db1) \<Rightarrow> (Inr (allowed, \<lfloor>tokens\<rfloor>), EXPIRE db1 key1 ttl)))"

subsection \<open>The client\<close>

text \<open>
  The handle on the store: whether it has been closed, whether the server cannot be
  reached (with the transport error every round trip then returns), and the keyspace
  behind it. A command on a closed client returns the client's own error.
\<close>

record Client =
  closed :: bool
  down :: "string option"
  db :: redis

definition Eval :: "Client \<Rightarrow> (redis \<Rightarrow> (string + 'a) \<times> redis) \<Rightarrow> (error + 'a) \<times> Client" where
  "Eval c script =
     (if closed c then (Inl (RedisError ''redis: client is closed''), c)
      else case down c of
             Some m \<Rightarrow> (Inl (RedisError m), c)
           | None \<Rightarrow>
               (case script (db c) of
                  (Inl e, db1) \<Rightarrow> (Inl (RedisError e), c\<lparr>db := db1\<rparr>)
                | (Inr v, db1) \<Rightarrow> (Inr v, c\<lparr>db := db1\<rparr>)))"

definition Del :: "Client \<Rightarrow> string list \<Rightarrow> error option \<times> Client" where
  "Del c keys =
     (if closed c then (Some (RedisError ''redis: client is closed''), c)
      else case down c of
             Some m \<Rightarrow> (Some (RedisError m), c)
           | None \<Rightarrow> (None, c\<lparr>db := DEL (db c) keys\<rparr>))"

definition client_Close :: "Client \<Rightarrow> error option \<times> Client" where
  "client_Close c =
     (if closed c then (Some (RedisError ''redis: client is closed''), c)
      else (None, c\<lparr>closed := True\<rparr>))"

section \<open>The limiters\<close>

text \<open>
  The three limiter structs have the same two fields. The client is not nil in a limiter
  that a constructor returned. Every operation returns the limiter with the client as the
  call left it.
\<close>

record limiter =
  client :: Client
  config :: Config

type_synonym outcome = "(error + Result) \<times> limiter"

subsection \<open>Fixed window (fixedwindow.go)\<close>

definition NewFixedWindow :: "Client option \<Rightarrow> Config option \<Rightarrow> error + limiter" where
  "NewFixedWindow clientArg configArg =
     (case clientArg of
        None \<Rightarrow> Inl (Errorf ''redis client cannot be nil'')
      | Some cl \<Rightarrow>
          (case configArg of
             None \<Rightarrow> Inl (Errorf ''config cannot be nil'')
           | Some c0 \<Rightarrow>
               (let cfg = WithDefaults configArg
                in case Validate cfg of
                     Some err \<Rightarrow> Inl (Wrapf ''invalid config'' err)
                   | None \<Rightarrow>
                       (case cfg of
                          Some c \<Rightarrow> Inr \<lparr>client = cl, config = c\<rparr>
                        | None \<Rightarrow> Inl (Errorf ''config cannot be nil'')))))"

definition fixedWindow_formatKey :: "limiter \<Rightarrow> string \<Rightarrow> int \<Rightarrow> string" where
  "fixedWindow_formatKey f key windowStart =
     FormatKey (Some (config f)) key @ '':'' @ showInt windowStart"

definition fixedWindow_calculateResetTime :: "limiter \<Rightarrow> int \<Rightarrow> time" where
  "fixedWindow_calculateResetTime f windowStart =
     Add (time_Unix windowStart 0) (Window (config f))"

definition incrementAndCheck :: "limiter \<Rightarrow> string \<Rightarrow> int \<Rightarrow> (error + int) \<times> Client" where
  "incrementAndCheck f key n =
     (let ttl = int64_of_float (Seconds (Window (config f)))
      in Eval (client f) (\<lambda>db. fixedWindowScript db key n ttl))"

text \<open>
  \<open>now\<close> is the clock read at the start of the call, \<open>later\<close> the clock read by
  \<^verbatim>\<open>time.Until\<close> when a denied result gets its retry hint.
\<close>

definition fixedWindow_AllowN :: "limiter \<Rightarrow> time \<Rightarrow> time \<Rightarrow> string \<Rightarrow> int \<Rightarrow> outcome" where
  "fixedWindow_AllowN f now later key n =
     (if n \<le> 0 then (Inl ErrInvalidN, f)
      else
        let windowStart = Unix (Truncate now (Window (config f)));
            redisKey = fixedWindow_formatKey f key windowStart
        in case incrementAndCheck f redisKey n of
             (Inl err, cl) \<Rightarrow>
               if FailOpen (config f)
               then (Inr \<lparr>Allowed = True, Limit = Config.Limit (config f), Remaining = 0,
                          RetryAfter = 0,
                          ResetAt = fixedWindow_calculateResetTime f windowStart\<rparr>,
                     f\<lparr>client := cl\<rparr>)
               else (Inl (Wrapf ''failed to check rate limit'' err), f\<lparr>client := cl\<rparr>)
           | (Inr count, cl) \<Rightarrow>
               (let allowed = (count \<le> Config.Limit (config f));
                    remaining = Config.Limit (config f) - count;
                    remaining = (if remaining < 0 then 0 else remaining);
                    result = \<lparr>Allowed = allowed, Limit = Config.Limit (config f),
                              Remaining = remaining, RetryAfter = 0,
                              ResetAt = fixedWindow_calculateResetTime f windowStart\<rparr>;
                    result =
                      (if \<not> allowed
                       then (let retryAfter = Until later (ResetAt result)
                             in result\<lparr>RetryAfter := (if retryAfter < 0 then 0 else retryAfter)\<rparr>)
                       else result)
                in (Inr result, f\<lparr>client := cl\<rparr>)))"

definition fixedWindow_Allow :: "limiter \<Rightarrow> time \<Rightarrow> time \<Rightarrow> string \<Rightarrow> outcome" where
  "fixedWindow_Allow f now later key = fixedWindow_AllowN f now later key 1"

definition fixedWindow_Reset :: "limiter \<Rightarrow> time \<Rightarrow> string \<Rightarrow> error option \<times> limiter" where
  "fixedWindow_Reset f now key =
     (let windowStart = Unix (Truncate now (Window (config f)));
          redisKey = fixedWindow_formatKey f key windowStart
      in case Del (client f) [redisKey] of
           (Some err, cl) \<Rightarrow> (Some (Wrapf ''failed to reset rate limit'' err), f\<lparr>client := cl\<rparr>)
         | (None, cl) \<Rightarrow> (None, f\<lparr>client := cl\<rparr>))"

definition fixedWindow_Close :: "limiter \<Rightarrow> error option \<times> limiter" where
  "fixedWindow_Close f = (case client_Close (client f) of (e, cl) \<Rightarrow> (e, f\<lparr>client := cl\<rparr>))"

subsection \<open>Sliding window (slidingwindow.go)\<close>

definition NewSlidingWindow :: "Client option \<Rightarrow> Config option \<Rightarrow> error + limiter" where
  "NewSlidingWindow clientArg configArg =
     (case clientArg of
        None \<Rightarrow> Inl (Errorf ''redis client cannot be nil'')
      | Some cl \<Rightarrow>
          (case configArg of
             None \<Rightarrow> Inl (Errorf ''config cannot be nil'')
           | Some c0 \<Rightarrow>
               (let cfg = WithDefaults configArg
                in case Validate cfg of
                     Some err \<Rightarrow> Inl (Wrapf ''invalid config'' err)
                   | None \<Rightarrow>
                       (case cfg of
                          Some c \<Rightarrow> Inr \<lparr>client = cl, config = c\<rparr>
                        | None \<Rightarrow> Inl (Errorf ''config cannot be nil'')))))"

definition slidingWindow_formatKey :: "limiter \<Rightarrow> string \<Rightarrow> int \<Rightarrow> string" where
  "slidingWindow_formatKey s key windowStart =
     FormatKey (Some (config s)) key @ '':'' @ showInt windowStart"

definition slidingWindow_calculateResetTime :: "limiter \<Rightarrow> int \<Rightarrow> time" where
  "slidingWindow_calculateResetTime s windowStart =
     Add (time_Unix windowStart 0) (Window (config s))"

definition getCounts :: "limiter \<Rightarrow> string \<Rightarrow> string \<Rightarrow> int \<Rightarrow> (error + int \<times> int) \<times> Client" where
  "getCounts s currKey prevKey n =
     (let currTTL = int64_of_float (Seconds (Window (config s)));
          prevTTL = int64_of_float (Seconds (Window (config s)) * 2)
      in Eval (client s) (\<lambda>db. slidingWindowScript db currKey prevKey n currTTL prevTTL))"

definition calculateWeightedCount :: "limiter \<Rightarrow> time \<Rightarrow> int \<Rightarrow> int \<Rightarrow> int \<Rightarrow> float64" where
  "calculateWeightedCount s now windowStart prevCount currCount =
     (let windowStartTime = time_Unix windowStart 0;
          elapsedInWindow = Sub now windowStartTime;
          progress = of_int elapsedInWindow / of_int (Window (config s))
      in of_int prevCount * (1 - progress) + of_int currCount)"

definition slidingWindow_AllowN :: "limiter \<Rightarrow> time \<Rightarrow> time \<Rightarrow> string \<Rightarrow> int \<Rightarrow> outcome" where
  "slidingWindow_AllowN s now later key n =
     (if n \<le> 0 then (Inl ErrInvalidN, s)
      else
        let currWindowStart = Unix (Truncate now (Window (config s)));
            prevWindowStart = currWindowStart - int64_of_float (Seconds (Window (config s)));
            currKey = slidingWindow_formatKey s key currWindowStart;
            prevKey = slidingWindow_formatKey s key prevWindowStart
        in case getCounts s currKey prevKey n of
             (Inl err, cl) \<Rightarrow>
               if FailOpen (config s)
               then (Inr \<lparr>Allowed = True, Limit = Config.Limit (config s), Remaining = 0,
                          RetryAfter = 0,
                          ResetAt = slidingWindow_calculateResetTime s currWindowStart\<rparr>,
                     s\<lparr>client := cl\<rparr>)
               else (Inl (Wrapf ''failed to check rate limit'' err), s\<lparr>client := cl\<rparr>)
           | (Inr (prevCount, currCount), cl) \<Rightarrow>
               (let weightedCount = calculateWeightedCount s now currWindowStart prevCount currCount;
                    allowed = (weightedCount \<le> of_int (Config.Limit (config s)));
                    remaining = Config.Limit (config s) - int64_of_float weightedCount;
                    remaining = (if remaining < 0 then 0 else remaining);
                    result = \<lparr>Allowed = allowed, Limit = Config.Limit (config s),
                              Remaining = remaining, RetryAfter = 0,
                              ResetAt = slidingWindow_calculateResetTime s currWindowStart\<rparr>;
                    result =
                      (if \<not> allowed
                       then (let retryAfter = Until later (ResetAt result)
                             in result\<lparr>RetryAfter := (if retryAfter < 0 then 0 else retryAfter)\<rparr>)
                       else result)
                in (Inr result, s\<lparr>client := cl\<rparr>)))"

definition slidingWindow_Allow :: "limiter \<Rightarrow> time \<Rightarrow> time \<Rightarrow> string \<Rightarrow> outcome" where
  "slidingWindow_Allow s now later key = slidingWindow_AllowN s now later key 1"

definition slidingWindow_Reset :: "limiter \<Rightarrow> time \<Rightarrow> string \<Rightarrow> error option \<times> limiter" where
  "slidingWindow_Reset s now key =
     (let currWindowStart = Unix (Truncate now (Window (config s)));
          prevWindowStart = currWindowStart - int64_of_float (Seconds (Window (config s)));
          currKey = slidingWindow_formatKey s key currWindowStart;
          prevKey = slidingWindow_formatKey s key prevWindowStart
      in case Del (client s) [currKey, prevKey] of
           (Some err, cl) \<Rightarrow> (Some (Wrapf ''failed to reset rate limit'' err), s\<lparr>client := cl\<rparr>)
         | (None, cl) \<Rightarrow> (None, s\<lparr>client := cl\<rparr>))"

definition slidingWindow_Close :: "limiter \<Rightarrow> error option \<times> limiter" where
  "slidingWindow_Close s = (case client_Close (client s) of (e, cl) \<Rightarrow> (e, s\<lparr>client := cl\<rparr>))"

subsection \<open>Token bucket (tokenbucket.go)\<close>

definition NewTokenBucket :: "Client option \<Rightarrow> Config option \<Rightarrow> error + limiter" where
  "NewTokenBucket clientArg configArg =
     (case clientArg of
        None \<Rightarrow> Inl (Errorf ''redis client cannot be nil'')
      | Some cl \<Rightarrow>
          (case configArg of
             None \<Rightarrow> Inl (Errorf ''config cannot be nil'')
           | Some c0 \<Rightarrow>
               (let cfg = WithDefaults configArg
                in case Validate cfg of
                     Some err \<Rightarrow> Inl (Wrapf ''invalid config'' err)
                   | None \<Rightarrow>
                       (case cfg of
                          Some c \<Rightarrow> Inr \<lparr>client = cl, config = c\<rparr>
                        | None \<Rightarrow> Inl (Errorf ''config cannot be nil'')))))"

definition calculateRefillRate :: "limiter \<Rightarrow> float64" where
  "calculateRefillRate t = of_int (Config.Limit (config t)) / Seconds (Window (config t))"

definition tokenBucket_calculateResetTime :: "limiter \<Rightarrow> float64 \<Rightarrow> time" where
  "tokenBucket_calculateResetTime t now =
     (let secondsToFull = of_int (Config.Limit (config t)) / calculateRefillRate t
      in Add (time_Unix (int64_of_float now)
                (int64_of_float ((now - of_int (int64_of_float now)) * 1000000000)))
             (int64_of_float (secondsToFull * of_int Second)))"

definition tryConsume :: "limiter \<Rightarrow> string \<Rightarrow> int \<Rightarrow> float64 \<Rightarrow> float64
    \<Rightarrow> (error + bool \<times> int) \<times> Client" where
  "tryConsume t key n refillRate now =
     (let capacity = Config.Limit (config t);
          ttl = int64_of_float (Seconds (Window (config t)) * 2)
      in case Eval (client t)
                (\<lambda>db. tokenBucketScript db key (of_int capacity) (of_int n) refillRate now ttl) of
           (Inl err, cl) \<Rightarrow> (Inl err, cl)
         | (Inr (allowedInt, remaining), cl) \<Rightarrow> (Inr (allowedInt = 1, remaining), cl))"

text \<open>The token bucket reads the clock once; \<open>clock\<close> is that reading.\<close>

definition tokenBucket_AllowN :: "limiter \<Rightarrow> time \<Rightarrow> string \<Rightarrow> int \<Rightarrow> outcome" where
  "tokenBucket_AllowN t clock key n =
     (if n \<le> 0 then (Inl ErrInvalidN, t)
      else
        let redisKey = FormatKey (Some (config t)) key;
            refillRate = calculateRefillRate t;
            now = of_int (UnixNano clock) / 1000000000
        in case tryConsume t redisKey n refillRate now of
             (Inl err, cl) \<Rightarrow>
               if FailOpen (config t)
               then (Inr \<lparr>Allowed = True, Limit = Config.Limit (config t), Remaining = 0,
                          RetryAfter = 0, ResetAt = tokenBucket_calculateResetTime t now\<rparr>,
                     t\<lparr>client := cl\<rparr>)
               else (Inl (Wrapf ''failed to check rate limit'' err), t\<lparr>client := cl\<rparr>)
           | (Inr (allowed, remaining), cl) \<Rightarrow>
               (let result = \<lparr>Allowed = allowed, Limit = Config.Limit (config t),
                              Remaining = remaining, RetryAfter = 0,
                              ResetAt = tokenBucket_calculateResetTime t now\<rparr>;
                    result =
                      (if \<not> allowed
                       then (let tokensNeeded = of_int (n - remaining);
                                 secondsToWait = tokensNeeded / refillRate;
                                 retryAfter = int64_of_float (secondsToWait * of_int Second)
                             in result\<lparr>RetryAfter := (if retryAfter < 0 then 0 else retryAfter)\<rparr>)
                       else result)
                in (Inr result, t\<lparr>client := cl\<rparr>)))"

definition tokenBucket_Allow :: "limiter \<Rightarrow> time \<Rightarrow> string \<Rightarrow> outcome" where
  "tokenBucket_Allow t clock key = tokenBucket_AllowN t clock key 1"

definition tokenBucket_Reset :: "limiter \<Rightarrow> string \<Rightarrow> error option \<times> limiter" where
  "tokenBucket_Reset t key =
     (let redisKey = FormatKey (Some (config t)) key
      in case Del (client t) [redisKey] of
           (Some err, cl) \<Rightarrow> (Some (Wrapf ''failed to reset rate limit'' err), t\<lparr>client := cl\<rparr>)
         | (None, cl) \<Rightarrow> (None, t\<lparr>client := cl\<rparr>))"

definition tokenBucket_Close :: "limiter \<Rightarrow> error option \<times> limiter" where
  "tokenBucket_Close t = (case client_Close (client t) of (e, cl) \<Rightarrow> (e, t\<lparr>client := cl\<rparr>))"

section \<open>The formulas of the specification\<close>

text \<open>
  The window start as the specification writes it:
  \<^verbatim>\<open>floor(now_seconds / window_seconds) * window_seconds\<close>.
\<close>

definition spec_window_start_unix :: "int \<Rightarrow> int \<Rightarrow> int" where
  "spec_window_start_unix now_seconds window_seconds =
     \<lfloor>(of_int now_seconds :: rat) / of_int window_seconds\<rfloor> * window_seconds"





section \<open>Reading the store, and sample limiters\<close>


definition bucket_state :: "redis \<Rightarrow> string \<Rightarrow> (rat \<times> rat) option" where
  "bucket_state d k =
     (case d k of
        Some (RHash h, ttl) \<Rightarrow>
          (case (map_of h ''tokens'', map_of h ''last_refill'') of
             (Some t, Some l) \<Rightarrow> Some (t, l)
           | _ \<Rightarrow> None)
      | _ \<Rightarrow> None)"

text \<open>A reachable store with an empty keyspace, and a store that refuses the connection.\<close>

definition reachableClient :: Client where
  "reachableClient = \<lparr>closed = False, down = None, db = Map.empty\<rparr>"


text \<open>The configuration of the first end-to-end scenario: 5 units per 60 seconds.\<close>

definition scenarioConfig :: Config where
  "scenarioConfig =
     \<lparr>Algorithm = FixedWindow, Limit = 5, Window = 60 * Second, Prefix = ''test'',
      FailOpen = False\<rparr>"

definition scenarioLimiter :: limiter where
  "scenarioLimiter = \<lparr>client = reachableClient, config = scenarioConfig\<rparr>"




text \<open>The scenario limiter with a window of seven seconds.\<close>

definition sevenSecondLimiter :: limiter where
  "sevenSecondLimiter =
     \<lparr>client = reachableClient, config = scenarioConfig\<lparr>Window := 7 * Second\<rparr>\<rparr>"










section \<open>Constructors\<close>

lemma constructor_config:
  assumes "NewFixedWindow (Some cl) (Some c) = Inr f \<or> NewSlidingWindow (Some cl) (Some c) = Inr f
     \<or> NewTokenBucket (Some cl) (Some c) = Inr f"
  shows "WithDefaults (Some c) = Some (config f) \<and> Validate (Some (config f)) = None
     \<and> client f = cl"
  using assms
  by (auto simp: NewFixedWindow_def NewSlidingWindow_def NewTokenBucket_def Let_def
      split: option.splits)

text \<open>
  C10. Each of the three constructors returns no limiter and an error when the store
  client is nil, whatever the configuration, and when the configuration is nil, whatever
  the client.
\<close>

theorem constructors_reject_nil:
  "NewFixedWindow None cfg = Inl (Errorf ''redis client cannot be nil'')
   \<and> NewFixedWindow (Some cl) None = Inl (Errorf ''config cannot be nil'')
   \<and> NewSlidingWindow None cfg = Inl (Errorf ''redis client cannot be nil'')
   \<and> NewSlidingWindow (Some cl) None = Inl (Errorf ''config cannot be nil'')
   \<and> NewTokenBucket None cfg = Inl (Errorf ''redis client cannot be nil'')
   \<and> NewTokenBucket (Some cl) None = Inl (Errorf ''config cannot be nil'')"
  by (simp add: NewFixedWindow_def NewSlidingWindow_def NewTokenBucket_def)

section \<open>Key prefix\<close>

text \<open>
  C9, as the code has it. An empty prefix is the unset prefix (a Go string has no third
  state). \<open>FormatKey\<close> on a configuration that kept its empty prefix returns the caller key
  unchanged, but \<open>WithDefaults\<close> replaces the empty prefix by \<open>ratelimit\<close> and every
  constructor applies it: the store keys of a limiter built from a configuration with an
  empty prefix begin with \<open>ratelimit:\<close>.
\<close>

theorem empty_prefix_gets_default:
  assumes "Prefix c = []"
  shows "FormatKey (Some c) key = key
     \<and> FormatKey (WithDefaults (Some c)) key = ''ratelimit:'' @ key
     \<and> (NewFixedWindow (Some cl) (Some c) = Inr f \<longrightarrow>
          fixedWindow_formatKey f key ws = ''ratelimit:'' @ key @ '':'' @ showInt ws)
     \<and> (NewSlidingWindow (Some cl) (Some c) = Inr f \<longrightarrow>
          slidingWindow_formatKey f key ws = ''ratelimit:'' @ key @ '':'' @ showInt ws)
     \<and> (NewTokenBucket (Some cl) (Some c) = Inr f \<longrightarrow>
          FormatKey (Some (config f)) key = ''ratelimit:'' @ key)"
proof -
  have a: "FormatKey (Some c) key = key"
    using assms by (simp add: FormatKey_def KeyPrefix_def)
  have b: "FormatKey (WithDefaults (Some c)) key = ''ratelimit:'' @ key"
    using assms by (simp add: FormatKey_def KeyPrefix_def WithDefaults_def DefaultPrefix_def)
  have c: "FormatKey (Some (config f)) key = ''ratelimit:'' @ key"
    if "NewFixedWindow (Some cl) (Some c) = Inr f \<or> NewSlidingWindow (Some cl) (Some c) = Inr f
     \<or> NewTokenBucket (Some cl) (Some c) = Inr f"
    using constructor_config [OF that] b by simp
  show ?thesis
    using a b c by (simp add: fixedWindow_formatKey_def slidingWindow_formatKey_def)
qed

text \<open>
  The theorem at the scenario configuration with its prefix emptied: the three
  constructors accept it and the limiter's keys carry the default prefix.
\<close>

theorem empty_prefix_gets_default_witness:
  "Prefix (scenarioConfig\<lparr>Prefix := []\<rparr>) = []
   \<and> NewFixedWindow (Some reachableClient) (Some (scenarioConfig\<lparr>Prefix := []\<rparr>))
       = Inr \<lparr>client = reachableClient, config = scenarioConfig\<lparr>Prefix := ''ratelimit''\<rparr>\<rparr>
   \<and> NewSlidingWindow (Some reachableClient) (Some (scenarioConfig\<lparr>Prefix := []\<rparr>))
       = Inr \<lparr>client = reachableClient, config = scenarioConfig\<lparr>Prefix := ''ratelimit''\<rparr>\<rparr>
   \<and> NewTokenBucket (Some reachableClient) (Some (scenarioConfig\<lparr>Prefix := []\<rparr>))
       = Inr \<lparr>client = reachableClient, config = scenarioConfig\<lparr>Prefix := ''ratelimit''\<rparr>\<rparr>
   \<and> FormatKey (Some (scenarioConfig\<lparr>Prefix := []\<rparr>)) ''u'' = ''u''
   \<and> fixedWindow_formatKey
        \<lparr>client = reachableClient, config = scenarioConfig\<lparr>Prefix := ''ratelimit''\<rparr>\<rparr>
        ''u'' 1800000000 = ''ratelimit:u:1800000000''
   \<and> slidingWindow_formatKey
        \<lparr>client = reachableClient, config = scenarioConfig\<lparr>Prefix := ''ratelimit''\<rparr>\<rparr>
        ''u'' 1800000000 = ''ratelimit:u:1800000000''
   \<and> FormatKey (Some (config
        \<lparr>client = reachableClient, config = scenarioConfig\<lparr>Prefix := ''ratelimit''\<rparr>\<rparr>))
        ''u'' = ''ratelimit:u''"
proof -
  let ?c = "scenarioConfig\<lparr>Prefix := []\<rparr>"
  let ?f = "\<lparr>client = reachableClient, config = scenarioConfig\<lparr>Prefix := ''ratelimit''\<rparr>\<rparr>"
  have p: "Prefix ?c = []" by simp
  have v: "Validate (Some (scenarioConfig\<lparr>Prefix := ''ratelimit''\<rparr>)) = None"
    by code_simp
  have w: "WithDefaults (Some ?c) = Some (scenarioConfig\<lparr>Prefix := ''ratelimit''\<rparr>)"
    by (simp add: WithDefaults_def DefaultPrefix_def)
  have n1: "NewFixedWindow (Some reachableClient) (Some ?c) = Inr ?f"
    by (simp add: NewFixedWindow_def w v)
  have n2: "NewSlidingWindow (Some reachableClient) (Some ?c) = Inr ?f"
    by (simp add: NewSlidingWindow_def w v)
  have n3: "NewTokenBucket (Some reachableClient) (Some ?c) = Inr ?f"
    by (simp add: NewTokenBucket_def w v)
  have s: "showInt 1800000000 = ''1800000000''" by code_simp
  show ?thesis
    using empty_prefix_gets_default [OF p, of "''u''" reachableClient ?f 1800000000] n1 n2 n3 s
    by simp
qed

text \<open>
  C9 as stated fails: a limiter built from a configuration whose prefix is explicitly
  empty derives a store key that carries the default prefix.
\<close>

theorem explicit_empty_prefix_counterexample:
  "(case NewFixedWindow (Some reachableClient) (Some (scenarioConfig\<lparr>Prefix := []\<rparr>)) of
      Inl e \<Rightarrow> False
    | Inr f \<Rightarrow> fixedWindow_formatKey f ''u'' 1800000000 = ''ratelimit:u:1800000000''
              \<and> fixedWindow_formatKey f ''u'' 1800000000 \<noteq> ''u:1800000000'')"
  by code_simp

section \<open>Input validation\<close>

lemma nonpositive_n_rejected:
  "n \<le> 0 \<Longrightarrow> fixedWindow_AllowN f now later key n = (Inl ErrInvalidN, f)
    \<and> slidingWindow_AllowN f now later key n = (Inl ErrInvalidN, f)
    \<and> tokenBucket_AllowN f now key n = (Inl ErrInvalidN, f)"
  by (simp add: fixedWindow_AllowN_def slidingWindow_AllowN_def tokenBucket_AllowN_def)

text \<open>
  C7 at the empty caller key. No operation checks the key: \<open>Allow\<close> with the empty key on
  the scenario limiter returns an allowed result and no error, and the counter of the key
  \<open>test::1800000000\<close> has been created in the store; the sliding window does the same,
  and the token bucket creates the bucket \<open>test:\<close>.
\<close>

theorem empty_key_is_admitted:
  "fst (fixedWindow_Allow scenarioLimiter (1800000030 * Second) (1800000030 * Second) [])
     = Inr \<lparr>Allowed = True, Limit = 5, Remaining = 4, RetryAfter = 0,
            ResetAt = 1800000060 * Second\<rparr>
   \<and> db (client (snd (fixedWindow_Allow scenarioLimiter (1800000030 * Second)
          (1800000030 * Second) []))) ''test::1800000000'' = Some (RInt 1, Some 60)
   \<and> fst (slidingWindow_Allow scenarioLimiter (1800000030 * Second) (1800000030 * Second) [])
     = Inr \<lparr>Allowed = True, Limit = 5, Remaining = 4, RetryAfter = 0,
            ResetAt = 1800000060 * Second\<rparr>
   \<and> db (client (snd (slidingWindow_Allow scenarioLimiter (1800000030 * Second)
          (1800000030 * Second) []))) ''test::1800000000'' = Some (RInt 1, Some 60)
   \<and> fst (tokenBucket_Allow scenarioLimiter (1800000030 * Second) [])
     = Inr \<lparr>Allowed = True, Limit = 5, Remaining = 4, RetryAfter = 0,
            ResetAt = 1800000090 * Second\<rparr>
   \<and> db (client (snd (tokenBucket_Allow scenarioLimiter (1800000030 * Second) []))) ''test:''
     = Some (RHash [(''tokens'', 4), (''last_refill'', 1800000030)], Some 120)"
  by code_simp

section \<open>A closed limiter\<close>

text \<open>
  C8 at a closed limiter. \<open>Close\<close> closes the client and the limiter keeps no state of
  its own: a later \<open>Allow\<close> runs into the closed client, which a fail-open limiter turns
  into an allowed result without an error, and a fail-closed limiter into an error that
  wraps the client's; \<open>Reset\<close> wraps the client's error as well. None of them is
  \<open>ErrClosed\<close>.
\<close>

theorem allow_after_close:
  "fst (fixedWindow_Close (scenarioLimiter\<lparr>config := scenarioConfig\<lparr>FailOpen := True\<rparr>\<rparr>)) = None
   \<and> fst (fixedWindow_Allow
        (snd (fixedWindow_Close (scenarioLimiter\<lparr>config := scenarioConfig\<lparr>FailOpen := True\<rparr>\<rparr>)))
        (1800000030 * Second) (1800000030 * Second) ''u'')
      = Inr \<lparr>Allowed = True, Limit = 5, Remaining = 0, RetryAfter = 0,
              ResetAt = 1800000060 * Second\<rparr>
   \<and> fst (slidingWindow_Allow
        (snd (slidingWindow_Close
                (scenarioLimiter\<lparr>config := scenarioConfig\<lparr>FailOpen := True\<rparr>\<rparr>)))
        (1800000030 * Second) (1800000030 * Second) ''u'')
      = Inr \<lparr>Allowed = True, Limit = 5, Remaining = 0, RetryAfter = 0,
              ResetAt = 1800000060 * Second\<rparr>
   \<and> fst (tokenBucket_Allow
        (snd (tokenBucket_Close
                (scenarioLimiter\<lparr>config := scenarioConfig\<lparr>FailOpen := True\<rparr>\<rparr>)))
        (1800000030 * Second) ''u'')
      = Inr \<lparr>Allowed = True, Limit = 5, Remaining = 0, RetryAfter = 0,
              ResetAt = 1800000090 * Second\<rparr>
   \<and> fst (fixedWindow_Close scenarioLimiter) = None
   \<and> fst (fixedWindow_Allow (snd (fixedWindow_Close scenarioLimiter))
        (1800000030 * Second) (1800000030 * Second) ''u'')
      = Inl (Wrapf ''failed to check rate limit'' (RedisError ''redis: client is closed''))
   \<and> fst (fixedWindow_Reset (snd (fixedWindow_Close scenarioLimiter))
        (1800000030 * Second) ''u'')
      = Some (Wrapf ''failed to reset rate limit'' (RedisError ''redis: client is closed''))
   \<and> \<not> errors_Is (Wrapf ''failed to check rate limit'' (RedisError ''redis: client is closed''))
          ErrClosed
   \<and> \<not> errors_Is (Wrapf ''failed to reset rate limit'' (RedisError ''redis: client is closed''))
          ErrClosed"
  by code_simp

section \<open>Store failure\<close>





section \<open>Window alignment\<close>

lemma Second_pos: "0 < Second"
  by (simp add: Second_def)

lemma window_seconds_whole: "int64_of_float (Seconds (k * Second)) = k"
proof -
  have "Seconds (k * Second) = of_int k"
    by (simp add: Seconds_def Second_def)
  then show ?thesis
    by (simp add: int64_of_float_def)
qed

lemma spec_window_start_unix_div:
  "spec_window_start_unix s k = s div k * k"
  by (simp add: spec_window_start_unix_def floor_divide_of_int_eq)



lemma Unix_Truncate_epoch_aligned:
  assumes "0 < k" and "(unixToInternal * Second) mod (k * Second) = 0"
  shows "Unix (Truncate now (k * Second)) = Unix now div k * k"
proof -
  let ?W = "k * Second"
  have W: "0 < ?W" using assms Second_pos by simp
  have "(now + unixToInternal * Second) mod ?W = now mod ?W"
    using assms(2) by (metis add.right_neutral mod_add_right_eq)
  then have "Truncate now ?W = now div ?W * ?W"
    using W by (simp add: Truncate_def minus_mod_eq_div_mult)
  then have "Unix (Truncate now ?W) = now div ?W * k"
    using Second_pos by (simp add: Unix_def)
  moreover have "now div ?W = now div Second div k"
    using assms(1) by (simp add: zdiv_zmult2_eq mult.commute)
  ultimately show ?thesis by (simp add: Unix_def)
qed

lemma Eval_reachable_db:
  assumes "\<not> closed c" and "down c = None"
  shows "db (snd (Eval c script)) = snd (script (db c))"
  using assms by (simp add: Eval_def split: prod.splits sum.splits)

lemma fixedWindow_AllowN_client:
  assumes "0 < n"
  shows "client (snd (fixedWindow_AllowN f now later key n))
    = snd (incrementAndCheck f
        (fixedWindow_formatKey f key (Unix (Truncate now (Window (config f))))) n)"
  using assms
  by (simp add: fixedWindow_AllowN_def Let_def split: prod.splits sum.splits)

lemma slidingWindow_AllowN_client:
  assumes "0 < n"
  shows "client (snd (slidingWindow_AllowN s now later key n))
    = snd (getCounts s
        (slidingWindow_formatKey s key (Unix (Truncate now (Window (config s)))))
        (slidingWindow_formatKey s key
           (Unix (Truncate now (Window (config s)))
              - int64_of_float (Seconds (Window (config s))))) n)"
  using assms
  by (simp add: slidingWindow_AllowN_def Let_def split: prod.splits sum.splits)

text \<open>
  C6, as the code has it. The window start is the Unix second of the call instant rounded
  down to a multiple of the window counted from Go's zero time (year 1), not from the
  Unix epoch. For a window of a whole number \<open>k\<close> of seconds that divides the 62135596800
  seconds between the two epochs (1 s, 1 min, 1 h, 1 day, ...) it is
  \<open>floor(now_seconds / window_seconds) * window_seconds\<close> with \<open>window_seconds = k\<close>: the
  fixed window script runs on the key of that window start, the sliding window script on
  that key and on the key \<open>window_seconds\<close> earlier.
\<close>

theorem window_start_alignment:
  assumes "0 < k" and "(unixToInternal * Second) mod (k * Second) = 0"
    and "Window (config f) = k * Second"
    and "0 < n" and "\<not> closed (client f)" and "down (client f) = None"
  shows "Unix (Truncate now (Window (config f)))
       = spec_window_start_unix (Unix now) (int64_of_float (Seconds (Window (config f))))
     \<and> int64_of_float (Seconds (Window (config f))) = k
     \<and> db (client (snd (fixedWindow_AllowN f now later key n)))
       = snd (fixedWindowScript (db (client f))
               (FormatKey (Some (config f)) key @ '':''
                  @ showInt (spec_window_start_unix (Unix now) k)) n k)
     \<and> db (client (snd (slidingWindow_AllowN f now later key n)))
       = snd (slidingWindowScript (db (client f))
               (FormatKey (Some (config f)) key @ '':''
                  @ showInt (spec_window_start_unix (Unix now) k))
               (FormatKey (Some (config f)) key @ '':''
                  @ showInt (spec_window_start_unix (Unix now) k - k)) n k (2 * k))"
proof -
  have ws: "int64_of_float (Seconds (Window (config f))) = k"
    using assms(3) by (simp add: window_seconds_whole)
  have ws2: "int64_of_float (Seconds (Window (config f)) * 2) = 2 * k"
  proof -
    have "Seconds (k * Second) * 2 = of_int (2 * k)"
      by (simp add: Seconds_def Second_def)
    then have "int64_of_float (Seconds (k * Second) * 2) = 2 * k"
      unfolding int64_of_float_def by (simp only: floor_of_int ceiling_of_int if_cancel)
    then show ?thesis
      using assms(3) by simp
  qed
  have start: "Unix (Truncate now (Window (config f))) = spec_window_start_unix (Unix now) k"
    using Unix_Truncate_epoch_aligned [OF assms(1,2)] assms(3)
    by (simp add: spec_window_start_unix_div)
  have fw: "db (client (snd (fixedWindow_AllowN f now later key n)))
       = snd (fixedWindowScript (db (client f))
               (FormatKey (Some (config f)) key @ '':''
                  @ showInt (spec_window_start_unix (Unix now) k)) n k)"
    using assms(4,5,6)
    by (simp add: fixedWindow_AllowN_client incrementAndCheck_def Let_def Eval_reachable_db
        fixedWindow_formatKey_def start ws)
  have sw: "db (client (snd (slidingWindow_AllowN f now later key n)))
       = snd (slidingWindowScript (db (client f))
               (FormatKey (Some (config f)) key @ '':''
                  @ showInt (spec_window_start_unix (Unix now) k))
               (FormatKey (Some (config f)) key @ '':''
                  @ showInt (spec_window_start_unix (Unix now) k - k)) n k (2 * k))"
    using assms(4,5,6)
    by (simp add: slidingWindow_AllowN_client getCounts_def Let_def Eval_reachable_db
        slidingWindow_formatKey_def start ws ws2)
  show ?thesis
    using start ws fw sw by simp
qed

text \<open>The theorem at the scenario limiter (60 seconds) and the instant 1800000030 s.\<close>

theorem window_start_alignment_witness:
  "(0::int) < 60 \<and> (unixToInternal * Second) mod (60 * Second) = 0
   \<and> Window (config scenarioLimiter) = 60 * Second \<and> (0::int) < 1
   \<and> \<not> closed (client scenarioLimiter) \<and> down (client scenarioLimiter) = None
   \<and> Unix (Truncate (1800000030 * Second) (Window (config scenarioLimiter))) = 1800000000
   \<and> spec_window_start_unix (Unix (1800000030 * Second)) 60 = 1800000000
   \<and> db (client (snd (fixedWindow_AllowN scenarioLimiter (1800000030 * Second)
        (1800000030 * Second) ''u'' 1)))
       = snd (fixedWindowScript (db (client scenarioLimiter)) ''test:u:1800000000'' 1 60)
   \<and> db (client (snd (slidingWindow_AllowN scenarioLimiter (1800000030 * Second)
        (1800000030 * Second) ''u'' 1)))
       = snd (slidingWindowScript (db (client scenarioLimiter)) ''test:u:1800000000''
           ''test:u:1799999940'' 1 60 120)"
proof -
  have a: "(unixToInternal * Second) mod (60 * Second) = 0"
    by code_simp
  have b: "Window (config scenarioLimiter) = 60 * Second"
    "\<not> closed (client scenarioLimiter)" "down (client scenarioLimiter) = None"
    by (simp_all add: scenarioLimiter_def scenarioConfig_def reachableClient_def)
  have c: "spec_window_start_unix (Unix (1800000030 * Second)) 60 = 1800000000"
    by code_simp
  have d: "FormatKey (Some (config scenarioLimiter)) ''u'' @ '':'' @ showInt 1800000000
      = ''test:u:1800000000''"
    "FormatKey (Some (config scenarioLimiter)) ''u'' @ '':'' @ showInt (1800000000 - 60)
      = ''test:u:1799999940''"
    by code_simp+
  show ?thesis
    using window_start_alignment [of 60 scenarioLimiter 1 "1800000030 * Second"
        "1800000030 * Second" "''u''", OF _ a b(1) _ b(2,3)] a b c d
    by simp
qed

text \<open>
  C6 as stated fails for a valid window of seven seconds: at the instant 1800000030 s the
  code's window start is 1800000030, the formula gives 1800000027, and the counter is
  created under the former.
\<close>

theorem window_start_counterexample:
  "Validate (Some (config sevenSecondLimiter)) = None
   \<and> Unix (Truncate (1800000030 * Second) (Window (config sevenSecondLimiter))) = 1800000030
   \<and> spec_window_start_unix (Unix (1800000030 * Second))
        (int64_of_float (Seconds (Window (config sevenSecondLimiter)))) = 1800000027
   \<and> db (client (snd (fixedWindow_AllowN sevenSecondLimiter (1800000030 * Second)
        (1800000030 * Second) ''u'' 1))) ''test:u:1800000030'' = Some (RInt 1, Some 7)
   \<and> db (client (snd (fixedWindow_AllowN sevenSecondLimiter (1800000030 * Second)
        (1800000030 * Second) ''u'' 1))) ''test:u:1800000027'' = None"
  by code_simp

section \<open>Fixed window\<close>





lemma fixedWindow_AllowN_happy:
  assumes "0 < n"
    and "incrementAndCheck f
           (fixedWindow_formatKey f key (Unix (Truncate now (Window (config f))))) n
         = (Inr count, cl)"
  shows "fixedWindow_AllowN f now later key n =
    (Inr \<lparr>Allowed = (count \<le> Config.Limit (config f)),
          Limit = Config.Limit (config f),
          Remaining = max 0 (Config.Limit (config f) - count),
          RetryAfter =
            (if count \<le> Config.Limit (config f) then 0
             else max 0 (fixedWindow_calculateResetTime f
                           (Unix (Truncate now (Window (config f)))) - later)),
          ResetAt = fixedWindow_calculateResetTime f (Unix (Truncate now (Window (config f))))\<rparr>,
     f\<lparr>client := cl\<rparr>)"
  using assms
  by (simp add: fixedWindow_AllowN_def Let_def Until_def Sub_def max_def)








section \<open>Sliding window\<close>

lemma slidingWindow_AllowN_happy:
  assumes "0 < n"
    and "getCounts s
           (slidingWindow_formatKey s key (Unix (Truncate now (Window (config s)))))
           (slidingWindow_formatKey s key
              (Unix (Truncate now (Window (config s)))
                 - int64_of_float (Seconds (Window (config s))))) n
         = (Inr (prevCount, currCount), cl)"
  shows "slidingWindow_AllowN s now later key n =
    (let w = calculateWeightedCount s now (Unix (Truncate now (Window (config s))))
               prevCount currCount;
         reset = slidingWindow_calculateResetTime s (Unix (Truncate now (Window (config s))))
     in (Inr \<lparr>Allowed = (w \<le> of_int (Config.Limit (config s))),
              Limit = Config.Limit (config s),
              Remaining = max 0 (Config.Limit (config s) - int64_of_float w),
              RetryAfter =
                (if w \<le> of_int (Config.Limit (config s)) then 0 else max 0 (reset - later)),
              ResetAt = reset\<rparr>,
         s\<lparr>client := cl\<rparr>))"
  using assms
  by (simp add: slidingWindow_AllowN_def Let_def Until_def Sub_def max_def)










section \<open>Token bucket\<close>


lemma bucket_state_absent: "d K = None \<Longrightarrow> bucket_state d K = None"
  by (simp add: bucket_state_def)

lemma bucket_state_hash:
  "d K = Some (RHash h, t) \<Longrightarrow> map_of h ''tokens'' = Some a \<Longrightarrow> map_of h ''last_refill'' = Some b
    \<Longrightarrow> bucket_state d K = Some (a, b)"
  by (simp add: bucket_state_def)






section \<open>The remaining budget\<close>









lemma tokenBucket_AllowN_happy:
  assumes "0 < n"
    and "tryConsume t (FormatKey (Some (config t)) key) n (calculateRefillRate t)
           (of_int (UnixNano clock) / 1000000000) = (Inr (a, rem), cl)"
  shows "tokenBucket_AllowN t clock key n =
    (Inr \<lparr>Allowed = a, Limit = Config.Limit (config t), Remaining = rem,
          RetryAfter =
            (if a then 0
             else max 0 (int64_of_float
                    (of_int (n - rem) / calculateRefillRate t * of_int Second))),
          ResetAt = tokenBucket_calculateResetTime t (of_int (UnixNano clock) / 1000000000)\<rparr>,
     t\<lparr>client := cl\<rparr>)"
  using assms
  by (simp add: tokenBucket_AllowN_def Let_def max_def)







section \<open>The errors the limiters return\<close>

text \<open>
  Whatever the store does, an error out of \<open>AllowN\<close> is \<open>ErrInvalidN\<close> or wraps an error of
  the store client, and an error out of \<open>Reset\<close> wraps an error of the store client: the
  sentinels \<open>ErrInvalidKey\<close>, \<open>ErrClosed\<close> and \<open>ErrStorageUnavailable\<close> are never returned.
\<close>


lemma Eval_error:
  assumes "Eval c script = (Inl e, cl)"
  shows "\<exists>m. e = RedisError m"
  using assms
  by (auto simp: Eval_def split: if_splits option.splits prod.splits sum.splits)

lemma fixedWindow_AllowN_error:
  assumes "fst (fixedWindow_AllowN f now later key n) = Inl e"
  shows "e = ErrInvalidN \<or> (\<exists>m. e = Wrapf ''failed to check rate limit'' (RedisError m))"
proof (cases "n \<le> 0")
  case True
  then show ?thesis
    using assms by (simp add: fixedWindow_AllowN_def)
next
  case False
  let ?K = "fixedWindow_formatKey f key (Unix (Truncate now (Window (config f))))"
  obtain res cl where inc: "incrementAndCheck f ?K n = (res, cl)"
    by (cases "incrementAndCheck f ?K n")
  show ?thesis
  proof (cases res)
    case (Inl err)
    have "Eval (client f)
        (\<lambda>d. fixedWindowScript d ?K n (int64_of_float (Seconds (Window (config f)))))
        = (Inl err, cl)"
      using inc Inl by (simp add: incrementAndCheck_def Let_def)
    from Eval_error [OF this] obtain m where "err = RedisError m" ..
    moreover have "fst (fixedWindow_AllowN f now later key n) =
        (if FailOpen (config f)
         then Inr \<lparr>Allowed = True, Limit = Config.Limit (config f), Remaining = 0,
                   RetryAfter = 0,
                   ResetAt = fixedWindow_calculateResetTime f
                               (Unix (Truncate now (Window (config f))))\<rparr>
         else Inl (Wrapf ''failed to check rate limit'' err))"
      using False inc Inl by (simp add: fixedWindow_AllowN_def Let_def)
    ultimately show ?thesis
      using assms by (cases "FailOpen (config f)") auto
  next
    case (Inr count)
    then show ?thesis
      using fixedWindow_AllowN_happy [of n f key now count cl later] False inc assms by simp
  qed
qed

lemma slidingWindow_AllowN_error:
  assumes "fst (slidingWindow_AllowN s now later key n) = Inl e"
  shows "e = ErrInvalidN \<or> (\<exists>m. e = Wrapf ''failed to check rate limit'' (RedisError m))"
proof (cases "n \<le> 0")
  case True
  then show ?thesis
    using assms by (simp add: slidingWindow_AllowN_def)
next
  case False
  let ?ws = "Unix (Truncate now (Window (config s)))"
  let ?K1 = "slidingWindow_formatKey s key ?ws"
  let ?K2 = "slidingWindow_formatKey s key (?ws - int64_of_float (Seconds (Window (config s))))"
  obtain res cl where gc: "getCounts s ?K1 ?K2 n = (res, cl)"
    by (cases "getCounts s ?K1 ?K2 n")
  show ?thesis
  proof (cases res)
    case (Inl err)
    have "Eval (client s)
        (\<lambda>d. slidingWindowScript d ?K1 ?K2 n (int64_of_float (Seconds (Window (config s))))
               (int64_of_float (Seconds (Window (config s)) * 2)))
        = (Inl err, cl)"
      using gc Inl by (simp add: getCounts_def Let_def)
    from Eval_error [OF this] obtain m where "err = RedisError m" ..
    moreover have "fst (slidingWindow_AllowN s now later key n) =
        (if FailOpen (config s)
         then Inr \<lparr>Allowed = True, Limit = Config.Limit (config s), Remaining = 0,
                   RetryAfter = 0,
                   ResetAt = slidingWindow_calculateResetTime s ?ws\<rparr>
         else Inl (Wrapf ''failed to check rate limit'' err))"
      using False gc Inl by (simp add: slidingWindow_AllowN_def Let_def)
    ultimately show ?thesis
      using assms by (cases "FailOpen (config s)") auto
  next
    case (Inr pc)
    obtain p c where "pc = (p, c)" by (cases pc)
    then show ?thesis
      using slidingWindow_AllowN_happy [of n s key now p c cl later] False gc Inr assms
      by (simp add: Let_def)
  qed
qed

lemma tokenBucket_AllowN_error:
  assumes "fst (tokenBucket_AllowN t clock key n) = Inl e"
  shows "e = ErrInvalidN \<or> (\<exists>m. e = Wrapf ''failed to check rate limit'' (RedisError m))"
proof (cases "n \<le> 0")
  case True
  then show ?thesis
    using assms by (simp add: tokenBucket_AllowN_def)
next
  case False
  let ?K = "FormatKey (Some (config t)) key"
  let ?now = "of_int (UnixNano clock) / 1000000000 :: rat"
  let ?rate = "calculateRefillRate t"
  let ?sc = "\<lambda>d. tokenBucketScript d ?K (of_int (Config.Limit (config t))) (of_int n)
              ?rate ?now (int64_of_float (Seconds (Window (config t)) * 2))"
  obtain res cl where tc: "tryConsume t ?K n ?rate ?now = (res, cl)"
    by (cases "tryConsume t ?K n ?rate ?now")
  show ?thesis
  proof (cases res)
    case (Inl err)
    obtain er cl' where ev: "Eval (client t) ?sc = (er, cl')"
      by (cases "Eval (client t) ?sc")
    have "er = Inl err"
      using tc Inl ev by (cases er) (auto simp: tryConsume_def Let_def split: prod.splits)
    with ev Eval_error [of "client t" ?sc err cl'] obtain m where "err = RedisError m"
      by auto
    moreover have "fst (tokenBucket_AllowN t clock key n) =
        (if FailOpen (config t)
         then Inr \<lparr>Allowed = True, Limit = Config.Limit (config t), Remaining = 0,
                   RetryAfter = 0, ResetAt = tokenBucket_calculateResetTime t ?now\<rparr>
         else Inl (Wrapf ''failed to check rate limit'' err))"
      using False tc Inl by (simp add: tokenBucket_AllowN_def Let_def)
    ultimately show ?thesis
      using assms by (cases "FailOpen (config t)") auto
  next
    case (Inr ar)
    obtain a rem where "ar = (a, rem)" by (cases ar)
    then show ?thesis
      using tokenBucket_AllowN_happy [of n t key clock a rem cl] False tc Inr assms by simp
  qed
qed

lemma Reset_errors:
  "(fst (fixedWindow_Reset f now key) = Some e \<or> fst (slidingWindow_Reset f now key) = Some e
      \<or> fst (tokenBucket_Reset f key) = Some e)
   \<Longrightarrow> \<exists>m. e = Wrapf ''failed to reset rate limit'' (RedisError m)"
  by (auto simp: fixedWindow_Reset_def slidingWindow_Reset_def tokenBucket_Reset_def Del_def
      Let_def split: if_splits option.splits prod.splits)

lemma sentinels_never_returned:
  assumes "fst (fixedWindow_AllowN f now later key n) = Inl e
      \<or> fst (slidingWindow_AllowN f now later key n) = Inl e
      \<or> fst (tokenBucket_AllowN f now key n) = Inl e
      \<or> fst (fixedWindow_Reset f now key) = Some e
      \<or> fst (slidingWindow_Reset f now key) = Some e
      \<or> fst (tokenBucket_Reset f key) = Some e"
  shows "\<not> errors_Is e ErrInvalidKey \<and> \<not> errors_Is e ErrClosed
     \<and> \<not> errors_Is e ErrStorageUnavailable"
proof -
  have "e = ErrInvalidN \<or> (\<exists>m. e = Wrapf ''failed to check rate limit'' (RedisError m))
      \<or> (\<exists>m. e = Wrapf ''failed to reset rate limit'' (RedisError m))"
    using assms fixedWindow_AllowN_error [of f now later key n e]
      slidingWindow_AllowN_error [of f now later key n e]
      tokenBucket_AllowN_error [of f now key n e] Reset_errors [of f now key e]
    by blast
  then show ?thesis
    by auto
qed

end
